theory Spec2Isabelle
  imports Complex_Main
begin

section \<open>JavaScript values\<close>

text \<open>
  The component's inputs are bound from templates, so a setter can receive any JavaScript
  value, whatever its TypeScript signature says. Primitive values are modelled directly;
  objects and arrays live in a store and are passed by reference, as in JavaScript.

  A number is a finite value, NaN or one of the two infinities. The component never does
  arithmetic on a number (it only compares and truncates), so a finite double is modelled by
  the rational it denotes; the sign of zero is not observable by any operation used here.
\<close>

type_synonym addr = nat

datatype jsnum = Finite rat | NaN | PosInfinity | NegInfinity

datatype jsval =
    JUndefined
  | JNull
  | JBool bool
  | JNum jsnum
  | JStr string
  | JBigInt int
  | JSymbol nat
  | JFunction nat
  | JRef addr

text \<open>A store cell: a plain object (its own enumerable properties, in order) or an array.\<close>

datatype jsobj = JObject "(string \<times> jsval) list" | JArray "jsval list"

type_synonym heap = "jsobj list"

text \<open>
  An address is an index into the store. JavaScript cannot forge a reference, so an address
  beyond the store never occurs; the model reads it as an object without properties.
\<close>

definition cell :: "heap \<Rightarrow> addr \<Rightarrow> jsobj" where
  "cell h a = (if a < length h then h ! a else JObject [])"

text \<open>\<^verbatim>\<open>new\<close>: the next free address is the length of the store.\<close>

definition alloc :: "heap \<Rightarrow> jsobj \<Rightarrow> heap \<times> jsval" where
  "alloc h ob = (h @ [ob], JRef (length h))"

text \<open>Property read \<^verbatim>\<open>o.k\<close> on the properties of an object: a missing key reads as undefined.\<close>

definition get_prop :: "(string \<times> jsval) list \<Rightarrow> string \<Rightarrow> jsval" where
  "get_prop fs k = (case map_of fs k of Some v \<Rightarrow> v | None \<Rightarrow> JUndefined)"

text \<open>ToBoolean for numbers and for values.\<close>

fun num_truthy :: "jsnum \<Rightarrow> bool" where
  "num_truthy (Finite x) = (x \<noteq> 0)"
| "num_truthy NaN = False"
| "num_truthy PosInfinity = True"
| "num_truthy NegInfinity = True"

fun truthy :: "jsval \<Rightarrow> bool" where
  "truthy JUndefined = False"
| "truthy JNull = False"
| "truthy (JBool b) = b"
| "truthy (JNum n) = num_truthy n"
| "truthy (JStr s) = (s \<noteq> [])"
| "truthy (JBigInt i) = (i \<noteq> 0)"
| "truthy (JSymbol _) = True"
| "truthy (JFunction _) = True"
| "truthy (JRef _) = True"

fun typeof :: "jsval \<Rightarrow> string" where
  "typeof JUndefined = ''undefined''"
| "typeof JNull = ''object''"
| "typeof (JBool _) = ''boolean''"
| "typeof (JNum _) = ''number''"
| "typeof (JStr _) = ''string''"
| "typeof (JBigInt _) = ''bigint''"
| "typeof (JSymbol _) = ''symbol''"
| "typeof (JFunction _) = ''function''"
| "typeof (JRef _) = ''object''"

text \<open>The comparison \<^verbatim>\<open>a <= b\<close> on numbers: false whenever NaN is involved.\<close>

fun num_le :: "jsnum \<Rightarrow> jsnum \<Rightarrow> bool" where
  "num_le NaN _ = False"
| "num_le _ NaN = False"
| "num_le NegInfinity _ = True"
| "num_le _ PosInfinity = True"
| "num_le (Finite x) (Finite y) = (x \<le> y)"
| "num_le PosInfinity _ = False"
| "num_le _ NegInfinity = False"

text \<open>
  \<^verbatim>\<open>a <= b\<close> where \<^verbatim>\<open>a\<close> is a number or undefined: undefined converts to NaN, so the
  comparison is false.
\<close>

fun opt_le :: "jsnum option \<Rightarrow> jsnum \<Rightarrow> bool" where
  "opt_le None _ = False"
| "opt_le (Some a) b = num_le a b"

text \<open>Strict equality \<^verbatim>\<open>a === b\<close>: references compare by address, NaN differs from itself.\<close>

definition strict_eq :: "jsval \<Rightarrow> jsval \<Rightarrow> bool" where
  "strict_eq a b = (a = b \<and> a \<noteq> JNum NaN)"

text \<open>
  \<^verbatim>\<open>xs.includes(v)\<close> compares with SameValueZero, which differs from strict equality only in
  that NaN is found; on this value type it is equality.
\<close>

definition Array_includes :: "jsval list \<Rightarrow> jsval \<Rightarrow> bool" where
  "Array_includes xs v = (v \<in> set xs)"

subsection \<open>Objects and arrays in the store\<close>

text \<open>The only exception a JavaScript operation used by the component can raise.\<close>

datatype error = TypeError

definition Array_isArray :: "heap \<Rightarrow> jsval \<Rightarrow> bool" where
  "Array_isArray h v =
     (case v of JRef a \<Rightarrow> (case cell h a of JArray _ \<Rightarrow> True | JObject _ \<Rightarrow> False) | _ \<Rightarrow> False)"

text \<open>The elements of the array a value refers to.\<close>

definition elements :: "heap \<Rightarrow> jsval \<Rightarrow> jsval list" where
  "elements h v =
     (case v of JRef a \<Rightarrow> (case cell h a of JArray xs \<Rightarrow> xs | JObject _ \<Rightarrow> []) | _ \<Rightarrow> [])"

text \<open>An array index as a property key: the index written in decimal.\<close>

fun index_key :: "nat \<Rightarrow> string" where
  "index_key i =
     (let units = char_of (i mod 10 + 48)
      in if i div 10 = 0 then [units] else index_key (i div 10) @ [units])"

declare index_key.simps [simp del]

text \<open>
  The own enumerable properties of a store cell, in order: those of an object, or the
  indexed elements of an array.
\<close>

fun own_entries :: "jsobj \<Rightarrow> (string \<times> jsval) list" where
  "own_entries (JObject fs) = fs"
| "own_entries (JArray xs) = zip (map index_key [0..<length xs]) xs"

text \<open>
  The own enumerable properties of any value, as \<^verbatim>\<open>Object.keys\<close> and object spread see
  them: a string has its characters, the other primitives have none.
\<close>

fun entries_of :: "heap \<Rightarrow> jsval \<Rightarrow> (string \<times> jsval) list" where
  "entries_of h (JRef a) = own_entries (cell h a)"
| "entries_of h (JStr s) = zip (map index_key [0..<length s]) (map (\<lambda>ch. JStr [ch]) s)"
| "entries_of h _ = []"

text \<open>\<^verbatim>\<open>Object.keys(v)\<close> raises a TypeError on undefined and on null.\<close>

fun Object_keys :: "heap \<Rightarrow> jsval \<Rightarrow> error + string list" where
  "Object_keys h JUndefined = Inl TypeError"
| "Object_keys h JNull = Inl TypeError"
| "Object_keys h v = Inr (map fst (entries_of h v))"

text \<open>
  Object spread \<^verbatim>\<open>{ ...v }\<close>: a new object with the own enumerable properties of \<open>v\<close>
  (none for undefined and null, without raising).
\<close>

definition spread :: "heap \<Rightarrow> jsval \<Rightarrow> heap \<times> jsval" where
  "spread h v = alloc h (JObject (entries_of h v))"

section \<open>Declarations the component imports\<close>

text \<open>
  The enum \<^verbatim>\<open>PoChartType\<close> (enums/po-chart-type.enum) is not part of the sources at hand.
  At run time a TypeScript enum is an object from member names to member values, and the
  component only reads \<^verbatim>\<open>PoChartType.Pie\<close>, \<^verbatim>\<open>PoChartType.Gauge\<close> and
  \<^verbatim>\<open>Object.values(PoChartType)\<close>. The enum object is therefore a parameter \<open>T\<close> of every
  operation that uses it, and the results hold for any declaration.
\<close>

type_synonym ts_enum = "(string \<times> jsval) list"

definition Object_values :: "(string \<times> jsval) list \<Rightarrow> jsval list" where
  "Object_values fs = map snd fs"

text \<open>Modelled from the spec: the enum PoChartType, which is missing from the sources.
  The spec names the members Pie, Donut, Line, Gauge and Area; a string enum whose values
  are the lower-case names is the concrete declaration on which the examples are
  evaluated.\<close>

definition PoChartType :: ts_enum where
  "PoChartType =
     [(''Pie'', JStr ''pie''), (''Donut'', JStr ''donut''), (''Line'', JStr ''line''),
      (''Gauge'', JStr ''gauge''), (''Area'', JStr ''area'')]"

text \<open>Modelled from the spec: \<^verbatim>\<open>isTypeof\<close> of utils/util, which is missing from the
  sources. The spec's test "rawValue is not a number (including missing/null)" is the
  \<^verbatim>\<open>typeof\<close> test the name announces.\<close>

definition isTypeof :: "jsval \<Rightarrow> string \<Rightarrow> bool" where
  "isTypeof object ty = (typeof object = ty)"

text \<open>Modelled from the spec: "truncation semantics, not rounding", that is, the integer
  part of a number, towards zero.\<close>

definition trunc :: "rat \<Rightarrow> int" where
  "trunc x = (if 0 \<le> x then \<lfloor>x\<rfloor> else \<lceil>x\<rceil>)"

text \<open>Modelled from the spec: \<^verbatim>\<open>convertToInt\<close> of utils/util, which is missing from the
  sources. The spec: "coerce to an integer (truncation semantics, not rounding)". Where the
  input has no integer value (NaN, an infinity, not a number) the spec gives no coercion
  and speaks only of a silent fallback to defaults; the model returns undefined
  (\<open>None\<close>) there.\<close>

fun convertToInt :: "jsval \<Rightarrow> jsnum option" where
  "convertToInt (JNum (Finite x)) = Some (Finite (of_int (trunc x)))"
| "convertToInt _ = None"

section \<open>The component\<close>

definition poChartDefaultHeight :: jsnum where
  "poChartDefaultHeight = Finite 400"

definition poChartMinHeight :: jsnum where
  "poChartMinHeight = Finite 200"

definition poChartTypeDefault :: "ts_enum \<Rightarrow> jsval" where
  "poChartTypeDefault T = get_prop T ''Pie''"

text \<open>Modelled from the spec: the interface PoChartMinMaxValues, which is missing from the
  sources. The spec: "MinMaxValues: {min: number, max: number}".\<close>

record PoChartMinMaxValues =
  mm_min :: jsnum
  mm_max :: jsnum

text \<open>The smaller and the larger of two numbers.\<close>

definition num_min :: "jsnum \<Rightarrow> jsnum \<Rightarrow> jsnum" where
  "num_min a b = (if num_le a b then a else b)"

definition num_max :: "jsnum \<Rightarrow> jsnum \<Rightarrow> jsnum" where
  "num_max a b = (if num_le a b then b else a)"

text \<open>Modelled from the spec: the "numeric values encountered" in a data sequence. NaN is
  not a number and is passed over, like every element that is not a number.\<close>

fun numeric_values :: "jsval list \<Rightarrow> jsnum list" where
  "numeric_values [] = []"
| "numeric_values (JNum NaN # vs) = numeric_values vs"
| "numeric_values (JNum n # vs) = n # numeric_values vs"
| "numeric_values (_ # vs) = numeric_values vs"

text \<open>Modelled from the spec: the data points of one series are the numeric values of its
  \<^verbatim>\<open>data\<close>, which the spec's data model gives as an "ordered sequence of numbers, or a
  single number". An entry that is not an object, or has no such data, has no data
  points.\<close>

definition series_data :: "heap \<Rightarrow> jsval \<Rightarrow> jsnum list" where
  "series_data h serie =
     (case serie of
        JRef a \<Rightarrow>
          (case cell h a of
             JObject fs \<Rightarrow>
               (case get_prop fs ''data'' of
                  JRef d \<Rightarrow> numeric_values (elements h (JRef d))
                | JNum n \<Rightarrow> numeric_values [JNum n]
                | _ \<Rightarrow> [])
           | JArray _ \<Rightarrow> [])
      | _ \<Rightarrow> [])"

text \<open>Modelled from the spec: "every data point of every series" of a collection.\<close>

definition data_points :: "heap \<Rightarrow> jsval \<Rightarrow> jsnum list" where
  "data_points h series = concat (map (series_data h) (elements h series))"

text \<open>Modelled from the spec: \<^verbatim>\<open>calculateMaxValue\<close> of helpers/maths, which is missing
  from the sources. The spec: "compute MinMax by scanning every series' data sequence and
  taking the global minimum and maximum numeric value encountered. Empty collection \<open>\<Rightarrow>\<close>
  MinMax is undefined/not computed." Without any numeric value there is no minimum or
  maximum, and the result is undefined (\<open>None\<close>).\<close>

definition calculateMaxValue :: "heap \<Rightarrow> jsval \<Rightarrow> PoChartMinMaxValues option" where
  "calculateMaxValue h series =
     (case data_points h series of
        [] \<Rightarrow> None
      | p # ps \<Rightarrow> Some \<lparr> mm_min = fold num_min ps p, mm_max = fold num_max ps p \<rparr>)"

text \<open>
  Angular's \<^verbatim>\<open>EventEmitter\<close> is a library class. It is modelled by its subscribers, each
  subscriber by the payloads it has been called with so far, oldest first;
  \<^verbatim>\<open>emit\<close> calls every subscriber once with the value.
\<close>

type_synonym EventEmitter = "jsval list list"

definition emit :: "EventEmitter \<Rightarrow> jsval \<Rightarrow> EventEmitter" where
  "emit e v = map (\<lambda>received. received @ [v]) e"

text \<open>
  The fields of \<^verbatim>\<open>PoChartBaseComponent\<close>. The private fields \<^verbatim>\<open>_axisOptions\<close>,
  \<^verbatim>\<open>_height\<close>, \<^verbatim>\<open>_series\<close> and \<^verbatim>\<open>_type\<close> are written \<open>priv_\<dots>\<close>. A field
  that the code only ever assigns numbers or undefined to is a \<open>jsnum option\<close>, with
  \<open>None\<close> for undefined. \<^verbatim>\<open>rebuildComponent\<close> is abstract: the model counts its calls.
\<close>

record PoChartBaseComponent =
  priv_axisOptions :: jsval
  priv_height :: "jsnum option"
  priv_series :: jsval
  priv_type :: jsval
  minMaxValues :: "PoChartMinMaxValues option"
  chartSeries :: jsval
  categories :: jsval
  title :: jsval
  seriesClick :: EventEmitter
  seriesHover :: EventEmitter
  rebuildComponent_calls :: nat

text \<open>A component as its constructor leaves it, with the given subscribers.\<close>

definition new_component :: "ts_enum \<Rightarrow> EventEmitter \<Rightarrow> EventEmitter \<Rightarrow> PoChartBaseComponent" where
  "new_component T click hover =
     \<lparr> priv_axisOptions = JUndefined, priv_height = None, priv_series = JUndefined,
       priv_type = poChartTypeDefault T, minMaxValues = None, chartSeries = JUndefined,
       categories = JUndefined, title = JUndefined,
       seriesClick = click, seriesHover = hover, rebuildComponent_calls = 0 \<rparr>"

definition rebuildComponent :: "PoChartBaseComponent \<Rightarrow> PoChartBaseComponent" where
  "rebuildComponent c = c\<lparr>rebuildComponent_calls := Suc (rebuildComponent_calls c)\<rparr>"

definition get_type :: "PoChartBaseComponent \<Rightarrow> jsval" where
  "get_type c = priv_type c"

definition setDefaultHeight :: "ts_enum \<Rightarrow> PoChartBaseComponent \<Rightarrow> jsnum" where
  "setDefaultHeight T c =
     (if strict_eq (get_type c) (get_prop T ''Gauge'') then poChartMinHeight
      else poChartDefaultHeight)"

definition set_height :: "ts_enum \<Rightarrow> jsval \<Rightarrow> PoChartBaseComponent \<Rightarrow> PoChartBaseComponent" where
  "set_height T v c =
     (let intValue = convertToInt v;
          height =
            (if isTypeof v ''number''
             then (if opt_le intValue poChartMinHeight then Some poChartMinHeight else intValue)
             else Some (setDefaultHeight T c))
      in rebuildComponent (c\<lparr>priv_height := height\<rparr>))"

text \<open>The getter: \<^verbatim>\<open>this._height || this.setDefaultHeight()\<close>.\<close>

definition get_height :: "ts_enum \<Rightarrow> PoChartBaseComponent \<Rightarrow> jsnum" where
  "get_height T c =
     (case priv_height c of
        Some n \<Rightarrow> (if num_truthy n then n else setDefaultHeight T c)
      | None \<Rightarrow> setDefaultHeight T c)"

definition set_type :: "ts_enum \<Rightarrow> jsval \<Rightarrow> PoChartBaseComponent \<Rightarrow> PoChartBaseComponent" where
  "set_type T v c =
     rebuildComponent
       (c\<lparr>priv_type := (if Array_includes (Object_values T) v then v else poChartTypeDefault T)\<rparr>)"

definition set_axisOptions :: "jsval \<Rightarrow> PoChartBaseComponent \<Rightarrow> PoChartBaseComponent" where
  "set_axisOptions v c = c\<lparr>priv_axisOptions := v\<rparr>"

definition get_axisOptions :: "PoChartBaseComponent \<Rightarrow> jsval" where
  "get_axisOptions c = priv_axisOptions c"

definition onSeriesClick :: "jsval \<Rightarrow> PoChartBaseComponent \<Rightarrow> PoChartBaseComponent" where
  "onSeriesClick event c = c\<lparr>seriesClick := emit (seriesClick c) event\<rparr>"

definition onSeriesHover :: "jsval \<Rightarrow> PoChartBaseComponent \<Rightarrow> PoChartBaseComponent" where
  "onSeriesHover event c = c\<lparr>seriesHover := emit (seriesHover c) event\<rparr>"

definition transformObjectToArrayObject :: "heap \<Rightarrow> jsval \<Rightarrow> error + heap \<times> jsval" where
  "transformObjectToArrayObject h serie =
     (if typeof serie = ''object''
      then (case Object_keys h serie of
              Inl e \<Rightarrow> Inl e
            | Inr ks \<Rightarrow>
                (if length ks \<noteq> 0
                 then (let (h1, copy) = spread h serie in Inr (alloc h1 (JArray [copy])))
                 else Inr (alloc h (JArray []))))
      else Inr (alloc h (JArray [])))"

text \<open>
  The setter of \<^verbatim>\<open>series\<close>. \<^verbatim>\<open>value || []\<close> allocates a new empty array for a falsy
  value; \<^verbatim>\<open>[...this._series]\<close> allocates a new array with the same elements.
\<close>

definition set_series ::
  "jsval \<Rightarrow> heap \<times> PoChartBaseComponent \<Rightarrow> error + heap \<times> PoChartBaseComponent" where
  "set_series v w =
     (let (h, c) = w;
          (h0, s) = (if truthy v then (h, v) else alloc h (JArray []));
          c0 = c\<lparr>priv_series := s\<rparr>
      in if Array_isArray h0 s
         then (let c1 = c0\<lparr>minMaxValues := calculateMaxValue h0 s\<rparr>;
                   (h1, a) = alloc h0 (JArray (elements h0 s))
               in Inr (h1, c1\<lparr>chartSeries := a\<rparr>))
         else (case transformObjectToArrayObject h0 s of
                 Inl e \<Rightarrow> Inl e
               | Inr (h1, a) \<Rightarrow> Inr (h1, c0\<lparr>chartSeries := a\<rparr>)))"

definition get_series :: "PoChartBaseComponent \<Rightarrow> jsval" where
  "get_series c = priv_series c"

subsection \<open>Inputs of the examples\<close>

text \<open>
  The store that holds the argument of the example
  \<^verbatim>\<open>[{label:'A', data:[1,5,3]}, {label:'B', data:[-2,9]}]\<close>: the array of the two series is
  at address 4.
\<close>

definition two_series_store :: heap where
  "two_series_store =
     [JArray [JNum (Finite 1), JNum (Finite 5), JNum (Finite 3)],
      JObject [(''label'', JStr ''A''), (''data'', JRef 0)],
      JArray [JNum (Finite (- 2)), JNum (Finite 9)],
      JObject [(''label'', JStr ''B''), (''data'', JRef 2)],
      JArray [JRef 1, JRef 3]]"

text \<open>The store that holds \<^verbatim>\<open>{value: 42}\<close> at address 0 and \<^verbatim>\<open>{}\<close> at address 1.\<close>

definition gauge_store :: heap where
  "gauge_store = [JObject [(''value'', JNum (Finite 42))], JObject []]"

section \<open>Basic facts\<close>

lemma rebuildComponent_fields:
  "priv_height (rebuildComponent c) = priv_height c"
  "priv_type (rebuildComponent c) = priv_type c"
  "priv_axisOptions (rebuildComponent c) = priv_axisOptions c"
  "priv_series (rebuildComponent c) = priv_series c"
  "minMaxValues (rebuildComponent c) = minMaxValues c"
  "chartSeries (rebuildComponent c) = chartSeries c"
  "seriesClick (rebuildComponent c) = seriesClick c"
  "seriesHover (rebuildComponent c) = seriesHover c"
  "rebuildComponent_calls (rebuildComponent c) = Suc (rebuildComponent_calls c)"
  by (simp_all add: rebuildComponent_def)


lemma setDefaultHeight_type:
  "priv_type c' = priv_type c \<Longrightarrow> setDefaultHeight T c' = setDefaultHeight T c"
  by (simp add: setDefaultHeight_def get_type_def)


subsection \<open>The height setter, case by case\<close>


lemma priv_height_set_height_finite:
  "priv_height (set_height T (JNum (Finite x)) c) =
     Some (if trunc x \<le> 200 then Finite 200 else Finite (of_int (trunc x)))"
  by (simp add: set_height_def isTypeof_def Let_def rebuildComponent_fields poChartMinHeight_def)







subsection \<open>The store\<close>

lemma cell_append_old: "a < length h \<Longrightarrow> cell (h @ xs) a = cell h a"
  by (simp add: cell_def nth_append)

lemma cell_append_new: "cell (h @ ob # xs) (length h) = ob"
  by (simp add: cell_def nth_append)

lemma cell_append_new2: "cell (h @ ob1 # ob2 # xs) (Suc (length h)) = ob2"
  by (simp add: cell_def nth_append)

lemma cell_JArray_allocated: "cell h a = JArray xs \<Longrightarrow> a < length h"
  by (simp add: cell_def split: if_splits)

lemma cell_nonempty_allocated: "cell h a = JObject fs \<Longrightarrow> fs \<noteq> [] \<Longrightarrow> a < length h"
  by (simp add: cell_def split: if_splits)

subsection \<open>The series setter, case by case\<close>

lemma calculateMaxValue_empty:
  "elements h s = [] \<Longrightarrow> calculateMaxValue h s = None"
  by (simp add: calculateMaxValue_def data_points_def)

lemma set_series_falsy:
  "\<not> truthy v \<Longrightarrow>
   set_series v (h, c) =
     Inr (h @ [JArray [], JArray []],
          c\<lparr>priv_series := JRef (length h), minMaxValues := None,
            chartSeries := JRef (Suc (length h))\<rparr>)"
  by (simp add: set_series_def alloc_def Array_isArray_def elements_def cell_append_new
      calculateMaxValue_empty)

lemma set_series_array:
  "cell h a = JArray xs \<Longrightarrow>
   set_series (JRef a) (h, c) =
     Inr (h @ [JArray xs],
          c\<lparr>priv_series := JRef a, minMaxValues := calculateMaxValue h (JRef a),
            chartSeries := JRef (length h)\<rparr>)"
  by (simp add: set_series_def alloc_def Array_isArray_def elements_def)

lemma set_series_object:
  "cell h a = JObject fs \<Longrightarrow> fs \<noteq> [] \<Longrightarrow>
   set_series (JRef a) (h, c) =
     Inr (h @ [JObject fs, JArray [JRef (length h)]],
          c\<lparr>priv_series := JRef a, chartSeries := JRef (Suc (length h))\<rparr>)"
  by (simp add: set_series_def alloc_def Array_isArray_def transformObjectToArrayObject_def
      spread_def)

lemma set_series_empty_object:
  "cell h a = JObject [] \<Longrightarrow>
   set_series (JRef a) (h, c) =
     Inr (h @ [JArray []], c\<lparr>priv_series := JRef a, chartSeries := JRef (length h)\<rparr>)"
  by (simp add: set_series_def alloc_def Array_isArray_def transformObjectToArrayObject_def)

lemma set_series_not_object:
  "truthy v \<Longrightarrow> typeof v \<noteq> ''object'' \<Longrightarrow>
   set_series v (h, c) =
     Inr (h @ [JArray []], c\<lparr>priv_series := v, chartSeries := JRef (length h)\<rparr>)"
  by (cases v) (simp_all add: set_series_def alloc_def Array_isArray_def
      transformObjectToArrayObject_def)

text \<open>
  Every input falls under one of the cases above, so the setter always returns, having only
  added cells to the store and having changed only the three fields that belong to the
  series.
\<close>

lemma set_series_cases:
  obtains (falsy) "\<not> truthy v"
  | (array) a xs where "v = JRef a" "cell h a = JArray xs"
  | (object) a fs where "v = JRef a" "cell h a = JObject fs" "fs \<noteq> []"
  | (empty_object) a where "v = JRef a" "cell h a = JObject []"
  | (not_object) "truthy v" "typeof v \<noteq> ''object''"
proof (cases "truthy v")
  case False
  then show ?thesis by (rule falsy)
next
  case True
  show ?thesis
  proof (cases "typeof v = ''object''")
    case False
    with True show ?thesis by (rule not_object)
  next
    case obj: True
    with True obtain a where v: "v = JRef a" by (cases v) auto
    show ?thesis
    proof (cases "cell h a")
      case (JArray xs)
      with v show ?thesis by (rule array)
    next
      case (JObject fs)
      with v show ?thesis by (cases "fs = []") (auto intro: object empty_object)
    qed
  qed
qed

lemma set_series_frame:
  "\<exists>new c'. set_series v (h, c) = Inr (h @ new, c') \<and>
      priv_height c' = priv_height c \<and> priv_type c' = priv_type c \<and>
      priv_axisOptions c' = priv_axisOptions c \<and>
      rebuildComponent_calls c' = rebuildComponent_calls c \<and>
      seriesClick c' = seriesClick c \<and> seriesHover c' = seriesHover c"
proof (cases rule: set_series_cases [where v = v and h = h])
  case falsy
  then show ?thesis by (simp add: set_series_falsy)
next
  case (array a xs)
  then show ?thesis by (simp add: set_series_array)
next
  case (object a fs)
  then show ?thesis by (simp add: set_series_object)
next
  case (empty_object a)
  then show ?thesis by (simp add: set_series_empty_object)
next
  case not_object
  then show ?thesis by (simp add: set_series_not_object)
qed

section \<open>The height resolver\<close>




section \<open>The type resolver\<close>

text \<open>
  C4. A value that is a member of the enumeration (one of \<^verbatim>\<open>Object.values(PoChartType)\<close>)
  is stored unchanged as the type; for every other value the type becomes the default,
  \<^verbatim>\<open>PoChartType.Pie\<close>.
\<close>

theorem type_resolved:
  "(v \<in> set (Object_values T) \<longrightarrow> get_type (set_type T v c) = v)
   \<and> (v \<notin> set (Object_values T) \<longrightarrow> get_type (set_type T v c) = get_prop T ''Pie'')"
  by (simp add: get_type_def set_type_def rebuildComponent_fields Array_includes_def
      poChartTypeDefault_def)

text \<open>
  On the declaration taken from the specification: the member Gauge is kept, and the
  strings and values outside the enumeration, "bogus", null and 123, give Pie.
\<close>

theorem type_resolved_witness:
  "get_type (set_type PoChartType (JStr ''gauge'') (new_component PoChartType [] []))
     = JStr ''gauge''
   \<and> get_type (set_type PoChartType (JStr ''bogus'') (new_component PoChartType [] []))
     = JStr ''pie''
   \<and> get_type (set_type PoChartType JNull (new_component PoChartType [] [])) = JStr ''pie''
   \<and> get_type (set_type PoChartType (JNum (Finite 123)) (new_component PoChartType [] []))
     = JStr ''pie''"
  using type_resolved [of "JStr ''gauge''" PoChartType "new_component PoChartType [] []"]
    type_resolved [of "JStr ''bogus''" PoChartType "new_component PoChartType [] []"]
    type_resolved [of JNull PoChartType "new_component PoChartType [] []"]
    type_resolved [of "JNum (Finite 123)" PoChartType "new_component PoChartType [] []"]
  by (simp add: Object_values_def get_prop_def PoChartType_def)

text \<open>
  C9. Setting the type twice with the same value gives the same type as setting it once,
  and the stored height, as well as the height read back, is the same as after one call.
  This holds for every value, valid or not.
\<close>

theorem set_type_idempotent:
  "get_type (set_type T v (set_type T v c)) = get_type (set_type T v c)
   \<and> priv_height (set_type T v (set_type T v c)) = priv_height (set_type T v c)
   \<and> get_height T (set_type T v (set_type T v c)) = get_height T (set_type T v c)"
  by (simp add: get_type_def get_height_def setDefaultHeight_def set_type_def
      rebuildComponent_fields split: option.splits)

theorem set_type_idempotent_witness:
  "get_type (set_type PoChartType (JStr ''gauge'')
      (set_type PoChartType (JStr ''gauge'') (new_component PoChartType [] [])))
     = JStr ''gauge''
   \<and> get_height PoChartType (set_type PoChartType (JStr ''gauge'')
      (set_type PoChartType (JStr ''gauge'') (new_component PoChartType [] [])))
     = Finite 200"
proof -
  have "get_type (set_type PoChartType (JStr ''gauge'') (new_component PoChartType [] []))
          = JStr ''gauge''"
    by (simp add: get_type_def set_type_def rebuildComponent_fields Array_includes_def
        Object_values_def PoChartType_def)
  moreover have
    "get_height PoChartType (set_type PoChartType (JStr ''gauge'')
       (new_component PoChartType [] [])) = Finite 200"
    by (simp add: get_height_def setDefaultHeight_def get_type_def strict_eq_def
        set_type_def rebuildComponent_fields Array_includes_def Object_values_def
        get_prop_def PoChartType_def new_component_def poChartMinHeight_def)
  ultimately show ?thesis
    using set_type_idempotent [of PoChartType "JStr ''gauge''"
        "new_component PoChartType [] []"]
    by simp
qed

section \<open>The event relay\<close>

text \<open>
  C8. \<^verbatim>\<open>onSeriesClick\<close> calls every subscriber of \<^verbatim>\<open>seriesClick\<close> exactly once, with
  the payload it was given and nothing else: what a subscriber has received afterwards is
  what it had received before, followed by that one payload. No subscriber is added or
  removed, and the subscribers of \<^verbatim>\<open>seriesHover\<close> receive nothing. The same holds for
  \<^verbatim>\<open>onSeriesHover\<close> with the two emitters exchanged. The payload is arbitrary; null is
  forwarded like any other value.
\<close>

theorem events_relayed:
  "length (seriesClick (onSeriesClick event c)) = length (seriesClick c)
   \<and> (\<forall>i < length (seriesClick c).
        seriesClick (onSeriesClick event c) ! i = seriesClick c ! i @ [event])
   \<and> seriesHover (onSeriesClick event c) = seriesHover c
   \<and> length (seriesHover (onSeriesHover event c)) = length (seriesHover c)
   \<and> (\<forall>i < length (seriesHover c).
        seriesHover (onSeriesHover event c) ! i = seriesHover c ! i @ [event])
   \<and> seriesClick (onSeriesHover event c) = seriesClick c"
  by (simp add: onSeriesClick_def onSeriesHover_def emit_def)

text \<open>One subscriber on each emitter, nothing received yet, and the payload null.\<close>

theorem events_relayed_witness:
  "seriesClick (onSeriesClick JNull (new_component PoChartType [[]] [[]])) = [[JNull]]
   \<and> seriesHover (onSeriesClick JNull (new_component PoChartType [[]] [[]])) = [[]]
   \<and> seriesHover (onSeriesHover JNull (new_component PoChartType [[]] [[]])) = [[JNull]]
   \<and> seriesClick (onSeriesHover JNull (new_component PoChartType [[]] [[]])) = [[]]"
proof -
  have sub: "seriesClick (new_component PoChartType [[]] [[]]) = [[]]"
    "seriesHover (new_component PoChartType [[]] [[]]) = [[]]"
    by (simp_all add: new_component_def)
  have one: "\<And>xs :: jsval list list. length xs = 1 \<Longrightarrow> xs ! 0 = [JNull] \<Longrightarrow> xs = [[JNull]]"
    by (simp add: length_Suc_conv) auto
  show ?thesis
    using events_relayed [of JNull "new_component PoChartType [[]] [[]]"]
    by (simp add: sub one)
qed

section \<open>Minimum and maximum of the data points\<close>

lemma num_le_refl: "a \<noteq> NaN \<Longrightarrow> num_le a a"
  by (cases a) simp_all

lemma num_le_total: "a \<noteq> NaN \<Longrightarrow> b \<noteq> NaN \<Longrightarrow> num_le a b \<or> num_le b a"
  by (cases a; cases b) auto

lemma num_le_trans: "num_le a b \<Longrightarrow> num_le b c \<Longrightarrow> num_le a c"
  by (cases a; cases b; cases c) auto

lemma num_min_cases: "num_min a b = a \<or> num_min a b = b"
  by (simp add: num_min_def)

lemma num_max_cases: "num_max a b = a \<or> num_max a b = b"
  by (simp add: num_max_def)

lemma num_min_le:
  "a \<noteq> NaN \<Longrightarrow> b \<noteq> NaN \<Longrightarrow> num_le (num_min a b) a \<and> num_le (num_min a b) b"
  using num_le_total [of a b] by (auto simp add: num_min_def num_le_refl)

lemma num_max_ge:
  "a \<noteq> NaN \<Longrightarrow> b \<noteq> NaN \<Longrightarrow> num_le a (num_max a b) \<and> num_le b (num_max a b)"
  using num_le_total [of a b] by (auto simp add: num_max_def num_le_refl)

lemma fold_num_min:
  "NaN \<notin> set (p # ps) \<Longrightarrow>
   fold num_min ps p \<in> set (p # ps) \<and> (\<forall>q \<in> set (p # ps). num_le (fold num_min ps p) q)"
proof (induction ps arbitrary: p)
  case Nil
  then show ?case by (simp add: num_le_refl)
next
  case (Cons x xs)
  let ?m = "num_min x p"
  from Cons.prems have nn: "x \<noteq> NaN" "p \<noteq> NaN" "NaN \<notin> set xs" by auto
  have m: "?m = x \<or> ?m = p" by (rule num_min_cases)
  with nn have "NaN \<notin> set (?m # xs)" by auto
  from Cons.IH [OF this]
  have mem: "fold num_min xs ?m \<in> set (?m # xs)"
    and low: "\<forall>q \<in> set (?m # xs). num_le (fold num_min xs ?m) q" by auto
  from low have "num_le (fold num_min xs ?m) ?m" by simp
  with num_min_le [OF nn(1) nn(2)]
  have "num_le (fold num_min xs ?m) x" "num_le (fold num_min xs ?m) p"
    by (blast intro: num_le_trans)+
  with mem low m show ?case by auto
qed

lemma fold_num_max:
  "NaN \<notin> set (p # ps) \<Longrightarrow>
   fold num_max ps p \<in> set (p # ps) \<and> (\<forall>q \<in> set (p # ps). num_le q (fold num_max ps p))"
proof (induction ps arbitrary: p)
  case Nil
  then show ?case by (simp add: num_le_refl)
next
  case (Cons x xs)
  let ?m = "num_max x p"
  from Cons.prems have nn: "x \<noteq> NaN" "p \<noteq> NaN" "NaN \<notin> set xs" by auto
  have m: "?m = x \<or> ?m = p" by (rule num_max_cases)
  with nn have "NaN \<notin> set (?m # xs)" by auto
  from Cons.IH [OF this]
  have mem: "fold num_max xs ?m \<in> set (?m # xs)"
    and high: "\<forall>q \<in> set (?m # xs). num_le q (fold num_max xs ?m)" by auto
  from high have "num_le ?m (fold num_max xs ?m)" by simp
  with num_max_ge [OF nn(1) nn(2)]
  have "num_le x (fold num_max xs ?m)" "num_le p (fold num_max xs ?m)"
    by (blast intro: num_le_trans)+
  with mem high m show ?case by auto
qed

lemma numeric_values_not_NaN: "NaN \<notin> set (numeric_values vs)"
  by (induction vs rule: numeric_values.induct) auto

lemma series_data_not_NaN: "NaN \<notin> set (series_data h s)"
  using numeric_values_not_NaN
  by (auto simp add: series_data_def split: jsval.splits jsobj.splits)

lemma data_points_not_NaN: "NaN \<notin> set (data_points h s)"
  using series_data_not_NaN by (auto simp add: data_points_def)

lemma calculateMaxValue_bounds:
  assumes "data_points h s \<noteq> []"
  shows "\<exists>m. calculateMaxValue h s = Some m \<and>
           mm_min m \<in> set (data_points h s) \<and> mm_max m \<in> set (data_points h s) \<and>
           (\<forall>p \<in> set (data_points h s). num_le (mm_min m) p \<and> num_le p (mm_max m)) \<and>
           num_le (mm_min m) (mm_max m)"
proof -
  from assms obtain p ps where pts: "data_points h s = p # ps"
    by (cases "data_points h s") auto
  have nn: "NaN \<notin> set (p # ps)"
    using data_points_not_NaN [of h s] by (simp add: pts)
  note lo = fold_num_min [OF nn] and hi = fold_num_max [OF nn]
  let ?m = "\<lparr> mm_min = fold num_min ps p, mm_max = fold num_max ps p \<rparr>"
  have "calculateMaxValue h s = Some ?m"
    by (simp add: calculateMaxValue_def pts)
  moreover have "mm_min ?m \<in> set (data_points h s)" "mm_max ?m \<in> set (data_points h s)"
    using lo hi by (simp_all add: pts)
  moreover have all: "\<forall>q \<in> set (data_points h s). num_le (mm_min ?m) q \<and> num_le q (mm_max ?m)"
    using lo hi by (simp add: pts)
  moreover have "num_le (mm_min ?m) (mm_max ?m)"
  proof -
    have "p \<in> set (data_points h s)" by (simp add: pts)
    with all have "num_le (mm_min ?m) p" "num_le p (mm_max ?m)" by blast+
    then show ?thesis by (rule num_le_trans)
  qed
  ultimately show ?thesis by blast
qed

section \<open>The series normalizer\<close>

text \<open>
  C3. When the series setter receives an array, the collection it stores is a new array with
  exactly the entries of the input, in order. The MinMax values are those of
  \<^verbatim>\<open>calculateMaxValue\<close> on the input: undefined for an empty array; and whenever the
  series have at least one data point, the minimum and the maximum are data points, every
  data point lies between them, and the minimum is at most the maximum.
\<close>

theorem array_series_minmax:
  "cell h a = JArray xs \<longrightarrow>
     (\<exists>h' c'. set_series (JRef a) (h, c) = Inr (h', c') \<and>
        Array_isArray h' (chartSeries c') \<and> elements h' (chartSeries c') = xs \<and>
        (xs = [] \<longrightarrow> minMaxValues c' = None) \<and>
        (data_points h (JRef a) \<noteq> [] \<longrightarrow>
           (\<exists>m. minMaxValues c' = Some m \<and>
              mm_min m \<in> set (data_points h (JRef a)) \<and>
              mm_max m \<in> set (data_points h (JRef a)) \<and>
              (\<forall>p \<in> set (data_points h (JRef a)). num_le (mm_min m) p \<and> num_le p (mm_max m)) \<and>
              num_le (mm_min m) (mm_max m))))"
proof
  assume arr: "cell h a = JArray xs"
  let ?h' = "h @ [JArray xs]"
  let ?c' = "c\<lparr>priv_series := JRef a, minMaxValues := calculateMaxValue h (JRef a),
                chartSeries := JRef (length h)\<rparr>"
  have run: "set_series (JRef a) (h, c) = Inr (?h', ?c')"
    using arr by (rule set_series_array)
  have coll: "Array_isArray ?h' (chartSeries ?c')" "elements ?h' (chartSeries ?c') = xs"
    by (simp_all add: Array_isArray_def elements_def cell_append_new)
  have empty: "xs = [] \<longrightarrow> minMaxValues ?c' = None"
    using arr by (simp add: calculateMaxValue_empty elements_def)
  have pts: "data_points h (JRef a) \<noteq> [] \<longrightarrow>
     (\<exists>m. minMaxValues ?c' = Some m \<and>
        mm_min m \<in> set (data_points h (JRef a)) \<and>
        mm_max m \<in> set (data_points h (JRef a)) \<and>
        (\<forall>p \<in> set (data_points h (JRef a)). num_le (mm_min m) p \<and> num_le p (mm_max m)) \<and>
        num_le (mm_min m) (mm_max m))"
    using calculateMaxValue_bounds [of h "JRef a"] by simp
  from run coll empty pts show
    "\<exists>h' c'. set_series (JRef a) (h, c) = Inr (h', c') \<and>
        Array_isArray h' (chartSeries c') \<and> elements h' (chartSeries c') = xs \<and>
        (xs = [] \<longrightarrow> minMaxValues c' = None) \<and>
        (data_points h (JRef a) \<noteq> [] \<longrightarrow>
           (\<exists>m. minMaxValues c' = Some m \<and>
              mm_min m \<in> set (data_points h (JRef a)) \<and>
              mm_max m \<in> set (data_points h (JRef a)) \<and>
              (\<forall>p \<in> set (data_points h (JRef a)). num_le (mm_min m) p \<and> num_le p (mm_max m)) \<and>
              num_le (mm_min m) (mm_max m)))"
    by blast
qed

text \<open>
  The example of the specification: the two series with data 1, 5, 3 and -2, 9 give the
  minimum -2 and the maximum 9, and the stored collection has the two entries of the input.
  The empty array gives an empty collection and undefined MinMax values.
\<close>

theorem array_series_minmax_witness:
  "minMaxValues (snd (projr (set_series (JRef 4)
       (two_series_store, new_component PoChartType [] []))))
     = Some \<lparr> mm_min = Finite (- 2), mm_max = Finite 9 \<rparr>
   \<and> elements (fst (projr (set_series (JRef 4)
         (two_series_store, new_component PoChartType [] []))))
       (chartSeries (snd (projr (set_series (JRef 4)
         (two_series_store, new_component PoChartType [] [])))))
     = [JRef 1, JRef 3]
   \<and> elements (fst (projr (set_series (JRef 0) ([JArray []], new_component PoChartType [] []))))
       (chartSeries (snd (projr (set_series (JRef 0)
         ([JArray []], new_component PoChartType [] [])))))
     = []
   \<and> minMaxValues (snd (projr (set_series (JRef 0)
         ([JArray []], new_component PoChartType [] []))))
     = None"
proof -
  have arr: "cell two_series_store 4 = JArray [JRef 1, JRef 3]"
    by (simp add: cell_def two_series_store_def)
  have pts: "data_points two_series_store (JRef 4) =
      [Finite 1, Finite 5, Finite 3, Finite (- 2), Finite 9]"
    by (simp add: data_points_def series_data_def elements_def cell_def get_prop_def
        two_series_store_def)
  from array_series_minmax [of two_series_store 4 "[JRef 1, JRef 3]"
      "new_component PoChartType [] []"] arr pts
  obtain h' c' m where
    run: "set_series (JRef 4) (two_series_store, new_component PoChartType [] []) = Inr (h', c')"
    and coll: "elements h' (chartSeries c') = [JRef 1, JRef 3]"
    and mm: "minMaxValues c' = Some m"
    and lo: "mm_min m \<in> {Finite 1, Finite 5, Finite 3, Finite (- 2), Finite 9}"
    and hi: "mm_max m \<in> {Finite 1, Finite 5, Finite 3, Finite (- 2), Finite 9}"
    and between: "num_le (mm_min m) (Finite (- 2))" "num_le (Finite 9) (mm_max m)"
    by auto
  from lo between(1) have "mm_min m = Finite (- 2)" by auto
  moreover from hi between(2) have "mm_max m = Finite 9" by auto
  ultimately have "m = \<lparr> mm_min = Finite (- 2), mm_max = Finite 9 \<rparr>" by simp
  moreover
  have "cell [JArray []] 0 = JArray []" by (simp add: cell_def)
  with array_series_minmax [of "[JArray []]" 0 "[]" "new_component PoChartType [] []"]
  obtain h0 c0 where
    "set_series (JRef 0) ([JArray []], new_component PoChartType [] []) = Inr (h0, c0)"
    "elements h0 (chartSeries c0) = []" "minMaxValues c0 = None"
    by auto
  ultimately show ?thesis using run coll mm by simp
qed

text \<open>
  C1 (as amended). When the series setter receives a reference to a non-array object that
  has at least one property, the collection it stores is a new one-element array. Its
  element is a shallow copy of the object: a reference to a new cell of the store,
  different from the caller's object, that holds the same properties, while the caller's
  object is left as it was. The MinMax values are not computed over this collection: they
  are left as they were, which on a new component is undefined.
\<close>

theorem object_series_wrapped:
  "cell h a = JObject fs \<and> fs \<noteq> [] \<longrightarrow>
     (\<exists>h' c' b k. set_series (JRef a) (h, c) = Inr (h', c') \<and>
        chartSeries c' = JRef b \<and> length h \<le> b \<and> b \<noteq> a \<and>
        Array_isArray h' (chartSeries c') \<and> elements h' (chartSeries c') = [JRef k] \<and>
        length h \<le> k \<and> k \<noteq> a \<and> k \<noteq> b \<and>
        cell h' k = JObject fs \<and> cell h' a = JObject fs \<and>
        minMaxValues c' = minMaxValues c)"
proof
  assume obj: "cell h a = JObject fs \<and> fs \<noteq> []"
  then have allocated: "a < length h" by (auto intro: cell_nonempty_allocated)
  let ?h' = "h @ [JObject fs, JArray [JRef (length h)]]"
  let ?c' = "c\<lparr>priv_series := JRef a, chartSeries := JRef (Suc (length h))\<rparr>"
  have run: "set_series (JRef a) (h, c) = Inr (?h', ?c')"
    using obj by (simp add: set_series_object)
  have coll: "chartSeries ?c' = JRef (Suc (length h))" "Array_isArray ?h' (chartSeries ?c')"
    "elements ?h' (chartSeries ?c') = [JRef (length h)]"
    by (simp_all add: Array_isArray_def elements_def cell_append_new2)
  have new: "length h \<le> Suc (length h)" "Suc (length h) \<noteq> a" "length h \<le> length h"
    "length h \<noteq> a" "length h \<noteq> Suc (length h)"
    using allocated by simp_all
  have copy: "cell ?h' (length h) = JObject fs"
    by (simp add: cell_append_new)
  have original: "cell ?h' a = JObject fs"
    using obj allocated by (simp add: cell_append_old)
  have mm: "minMaxValues ?c' = minMaxValues c"
    by simp
  from run coll new copy original mm
  show "\<exists>h' c' b k. set_series (JRef a) (h, c) = Inr (h', c') \<and>
        chartSeries c' = JRef b \<and> length h \<le> b \<and> b \<noteq> a \<and>
        Array_isArray h' (chartSeries c') \<and> elements h' (chartSeries c') = [JRef k] \<and>
        length h \<le> k \<and> k \<noteq> a \<and> k \<noteq> b \<and>
        cell h' k = JObject fs \<and> cell h' a = JObject fs \<and>
        minMaxValues c' = minMaxValues c"
    by blast
qed

text \<open>
  The example \<^verbatim>\<open>{value: 42}\<close>, at address 0 of a store of two cells, on a new component:
  the collection holds one reference, to the new cell at address 2, which reads
  \<^verbatim>\<open>{value: 42}\<close> like the caller's object at address 0, and the MinMax values are
  undefined.
\<close>

theorem object_series_wrapped_witness:
  "elements (fst (projr (set_series (JRef 0) (gauge_store, new_component PoChartType [] []))))
     (chartSeries (snd (projr (set_series (JRef 0)
        (gauge_store, new_component PoChartType [] [])))))
     = [JRef 2]
   \<and> cell (fst (projr (set_series (JRef 0) (gauge_store, new_component PoChartType [] [])))) 2
     = JObject [(''value'', JNum (Finite 42))]
   \<and> cell (fst (projr (set_series (JRef 0) (gauge_store, new_component PoChartType [] [])))) 0
     = JObject [(''value'', JNum (Finite 42))]
   \<and> length gauge_store \<le> 2 \<and> (2::nat) \<noteq> 0
   \<and> minMaxValues (snd (projr (set_series (JRef 0)
        (gauge_store, new_component PoChartType [] []))))
     = None"
proof -
  have obj: "cell gauge_store 0 = JObject [(''value'', JNum (Finite 42))]"
    by (simp add: cell_def gauge_store_def)
  from object_series_wrapped [of gauge_store 0 "[(''value'', JNum (Finite 42))]"
      "new_component PoChartType [] []"] obj
  obtain h' c' k where
    run: "set_series (JRef 0) (gauge_store, new_component PoChartType [] []) = Inr (h', c')"
    and coll: "elements h' (chartSeries c') = [JRef k]"
    and new: "length gauge_store \<le> k" "k \<noteq> 0"
    and copy: "cell h' k = JObject [(''value'', JNum (Finite 42))]"
    and original: "cell h' 0 = JObject [(''value'', JNum (Finite 42))]"
    and mm: "minMaxValues c' = minMaxValues (new_component PoChartType [] [])"
    by auto
  have "set_series (JRef 0) (gauge_store, new_component PoChartType [] []) =
      Inr (gauge_store @ [JObject [(''value'', JNum (Finite 42))], JArray [JRef 2]],
           (new_component PoChartType [] [])\<lparr>priv_series := JRef 0, chartSeries := JRef 3\<rparr>)"
    using set_series_object [OF obj, of "new_component PoChartType [] []"]
    by (simp add: gauge_store_def)
  with run have "h' = gauge_store @ [JObject [(''value'', JNum (Finite 42))], JArray [JRef 2]]"
    "chartSeries c' = JRef 3"
    by auto
  with coll have "k = 2"
    by (simp add: elements_def cell_def gauge_store_def)
  with run coll new copy original mm show ?thesis
    by (simp add: new_component_def)
qed

text \<open>
  The claim as stated fails on its own example: after the setter has received
  \<^verbatim>\<open>{value: 42}\<close> on a new component, the collection is the one-element array with the
  copy, but the MinMax values are undefined, not \<^verbatim>\<open>{min: 42, max: 42}\<close>.
\<close>

theorem object_series_minmax_counterexample:
  "set_series (JRef 0) (gauge_store, new_component PoChartType [] []) =
     Inr (gauge_store @ [JObject [(''value'', JNum (Finite 42))], JArray [JRef 2]],
          (new_component PoChartType [] [])\<lparr>priv_series := JRef 0, chartSeries := JRef 3\<rparr>)
   \<and> minMaxValues (snd (projr (set_series (JRef 0)
        (gauge_store, new_component PoChartType [] [])))) = None
   \<and> minMaxValues (snd (projr (set_series (JRef 0)
        (gauge_store, new_component PoChartType [] []))))
       \<noteq> Some \<lparr> mm_min = Finite 42, mm_max = Finite 42 \<rparr>"
proof -
  have obj: "cell gauge_store 0 = JObject [(''value'', JNum (Finite 42))]"
    by (simp add: cell_def gauge_store_def)
  have "set_series (JRef 0) (gauge_store, new_component PoChartType [] []) =
      Inr (gauge_store @ [JObject [(''value'', JNum (Finite 42))], JArray [JRef 2]],
           (new_component PoChartType [] [])\<lparr>priv_series := JRef 0, chartSeries := JRef 3\<rparr>)"
    using set_series_object [OF obj, of "new_component PoChartType [] []"]
    by (simp add: gauge_store_def)
  then show ?thesis by (simp add: new_component_def)
qed




text \<open>
  C6. The series setter never changes a cell that is already in the store: it only adds
  cells, so whatever it was given is left as it was. When it is given a reference to a
  non-array object with at least one property, the element of the stored collection is a
  reference to a new cell, different from the caller's object, that holds the same
  properties; whatever is written over the caller's object afterwards, the stored element
  and the collection still read the same.
\<close>

theorem series_copy_not_aliased:
  "(\<exists>h' c'. set_series v (h, c) = Inr (h', c') \<and> take (length h) h' = h)
   \<and> (cell h a = JObject fs \<and> fs \<noteq> [] \<longrightarrow>
       (\<exists>h' c' k. set_series (JRef a) (h, c) = Inr (h', c') \<and>
          elements h' (chartSeries c') = [JRef k] \<and> k \<noteq> a \<and> cell h' k = JObject fs \<and>
          (\<forall>ob. cell (h'[a := ob]) a = ob \<and> cell (h'[a := ob]) k = JObject fs \<and>
                elements (h'[a := ob]) (chartSeries c') = [JRef k])))"
proof (intro conjI impI)
  from set_series_frame [of v h c]
  obtain new c' where "set_series v (h, c) = Inr (h @ new, c')" by blast
  then have "set_series v (h, c) = Inr (h @ new, c') \<and> take (length h) (h @ new) = h"
    by simp
  then show "\<exists>h' c'. set_series v (h, c) = Inr (h', c') \<and> take (length h) h' = h"
    by blast
next
  assume obj: "cell h a = JObject fs \<and> fs \<noteq> []"
  then have alloc: "a < length h" by (auto intro: cell_nonempty_allocated)
  let ?h' = "h @ [JObject fs, JArray [JRef (length h)]]"
  let ?c' = "c\<lparr>priv_series := JRef a, chartSeries := JRef (Suc (length h))\<rparr>"
  have run: "set_series (JRef a) (h, c) = Inr (?h', ?c')"
    using obj by (simp add: set_series_object)
  have coll: "elements ?h' (chartSeries ?c') = [JRef (length h)]"
    by (simp add: elements_def cell_append_new2)
  have fresh: "length h \<noteq> a" using alloc by simp
  have copy: "cell ?h' (length h) = JObject fs"
    by (simp add: cell_append_new)
  have later: "\<forall>ob. cell (?h'[a := ob]) a = ob \<and> cell (?h'[a := ob]) (length h) = JObject fs \<and>
      elements (?h'[a := ob]) (chartSeries ?c') = [JRef (length h)]"
    using alloc by (simp add: elements_def cell_def nth_append list_update_append)
  from run coll fresh copy later
  show "\<exists>h' c' k. set_series (JRef a) (h, c) = Inr (h', c') \<and>
          elements h' (chartSeries c') = [JRef k] \<and> k \<noteq> a \<and> cell h' k = JObject fs \<and>
          (\<forall>ob. cell (h'[a := ob]) a = ob \<and> cell (h'[a := ob]) k = JObject fs \<and>
                elements (h'[a := ob]) (chartSeries c') = [JRef k])"
    by blast
qed

text \<open>
  The caller passes \<^verbatim>\<open>{value: 42}\<close> and then overwrites its own object with
  \<^verbatim>\<open>{value: 7}\<close>: the caller's object reads 7, the element of the stored collection,
  at address 2, still reads 42.
\<close>

theorem series_copy_not_aliased_witness:
  "take 2 (fst (projr (set_series (JRef 0) (gauge_store, new_component PoChartType [] []))))
     = gauge_store
   \<and> cell ((fst (projr (set_series (JRef 0) (gauge_store, new_component PoChartType [] []))))
        [0 := JObject [(''value'', JNum (Finite 7))]]) 0
     = JObject [(''value'', JNum (Finite 7))]
   \<and> cell ((fst (projr (set_series (JRef 0) (gauge_store, new_component PoChartType [] []))))
        [0 := JObject [(''value'', JNum (Finite 7))]]) 2
     = JObject [(''value'', JNum (Finite 42))]"
proof -
  have obj: "cell gauge_store 0 = JObject [(''value'', JNum (Finite 42))]"
    by (simp add: cell_def gauge_store_def)
  have len: "length gauge_store = 2" by (simp add: gauge_store_def)
  from series_copy_not_aliased [of "JRef 0" gauge_store "new_component PoChartType [] []"
      0 "[(''value'', JNum (Finite 42))]"] obj
  obtain h' c' k where
    run: "set_series (JRef 0) (gauge_store, new_component PoChartType [] []) = Inr (h', c')"
    and pre: "take (length gauge_store) h' = gauge_store"
    and coll: "elements h' (chartSeries c') = [JRef k]"
    and later: "cell (h'[0 := JObject [(''value'', JNum (Finite 7))]]) 0
        = JObject [(''value'', JNum (Finite 7))]"
      "cell (h'[0 := JObject [(''value'', JNum (Finite 7))]]) k
        = JObject [(''value'', JNum (Finite 42))]"
    by auto
  have "set_series (JRef 0) (gauge_store, new_component PoChartType [] []) =
      Inr (gauge_store @ [JObject [(''value'', JNum (Finite 42))], JArray [JRef 2]],
           (new_component PoChartType [] [])\<lparr>priv_series := JRef 0, chartSeries := JRef 3\<rparr>)"
    using set_series_object [OF obj, of "new_component PoChartType [] []"]
    by (simp add: len)
  with run have "h' = gauge_store @ [JObject [(''value'', JNum (Finite 42))], JArray [JRef 2]]"
    "chartSeries c' = JRef 3"
    by auto
  with coll have "k = 2"
    by (simp add: elements_def cell_def gauge_store_def)
  with run pre later show ?thesis by (simp add: len)
qed


section \<open>Frame of the setters\<close>

text \<open>
  C10. The series setter leaves the stored height, the height read back, the type and the
  axis options as they were, and does not call \<^verbatim>\<open>rebuildComponent\<close>. The height setter
  and the type setter each call it exactly once; the setter of the axis options and the two
  event relays do not call it.
\<close>

theorem rebuild_only_by_height_and_type:
  "(\<exists>h' c'. set_series v (h, c) = Inr (h', c') \<and>
      priv_height c' = priv_height c \<and> get_height T c' = get_height T c \<and>
      get_type c' = get_type c \<and> get_axisOptions c' = get_axisOptions c \<and>
      rebuildComponent_calls c' = rebuildComponent_calls c)
   \<and> rebuildComponent_calls (set_height T v c) = Suc (rebuildComponent_calls c)
   \<and> rebuildComponent_calls (set_type T v c) = Suc (rebuildComponent_calls c)
   \<and> rebuildComponent_calls (set_axisOptions v c) = rebuildComponent_calls c
   \<and> rebuildComponent_calls (onSeriesClick v c) = rebuildComponent_calls c
   \<and> rebuildComponent_calls (onSeriesHover v c) = rebuildComponent_calls c"
proof (intro conjI)
  from set_series_frame [of v h c]
  obtain new c' where run: "set_series v (h, c) = Inr (h @ new, c')"
    and same: "priv_height c' = priv_height c" "priv_type c' = priv_type c"
      "priv_axisOptions c' = priv_axisOptions c"
      "rebuildComponent_calls c' = rebuildComponent_calls c"
    by blast
  have "setDefaultHeight T c' = setDefaultHeight T c"
    using same(2) by (rule setDefaultHeight_type)
  with same have "get_height T c' = get_height T c"
    by (simp add: get_height_def split: option.splits)
  with run same show "\<exists>h' c'. set_series v (h, c) = Inr (h', c') \<and>
      priv_height c' = priv_height c \<and> get_height T c' = get_height T c \<and>
      get_type c' = get_type c \<and> get_axisOptions c' = get_axisOptions c \<and>
      rebuildComponent_calls c' = rebuildComponent_calls c"
    by (simp add: get_type_def get_axisOptions_def)
qed (simp_all add: set_height_def set_type_def set_axisOptions_def onSeriesClick_def
    onSeriesHover_def Let_def rebuildComponent_fields)

text \<open>
  A component whose height was set to 300 and whose type was set to Line has been rebuilt
  twice; after the series of the example are set it still has height 300, type Line and
  two rebuilds.
\<close>

theorem rebuild_only_by_height_and_type_witness:
  "rebuildComponent_calls (snd (projr (set_series (JRef 4) (two_series_store,
       set_type PoChartType (JStr ''line'')
         (set_height PoChartType (JNum (Finite 300)) (new_component PoChartType [] []))))))
     = 2
   \<and> get_height PoChartType (snd (projr (set_series (JRef 4) (two_series_store,
       set_type PoChartType (JStr ''line'')
         (set_height PoChartType (JNum (Finite 300)) (new_component PoChartType [] []))))))
     = Finite 300
   \<and> get_type (snd (projr (set_series (JRef 4) (two_series_store,
       set_type PoChartType (JStr ''line'')
         (set_height PoChartType (JNum (Finite 300)) (new_component PoChartType [] []))))))
     = JStr ''line''"
proof -
  let ?c0 = "new_component PoChartType [] []"
  let ?c1 = "set_height PoChartType (JNum (Finite 300)) ?c0"
  let ?c2 = "set_type PoChartType (JStr ''line'') ?c1"
  have "rebuildComponent_calls ?c1 = Suc (rebuildComponent_calls ?c0)"
    by (rule rebuild_only_by_height_and_type [THEN conjunct2, THEN conjunct1])
  moreover have "rebuildComponent_calls ?c2 = Suc (rebuildComponent_calls ?c1)"
    by (rule rebuild_only_by_height_and_type [THEN conjunct2, THEN conjunct2, THEN conjunct1])
  moreover have "rebuildComponent_calls ?c0 = 0"
    by (simp add: new_component_def)
  ultimately have calls: "rebuildComponent_calls ?c2 = 2"
    by simp
  have ty: "get_type ?c2 = JStr ''line''"
    by (simp add: get_type_def set_type_def rebuildComponent_fields Array_includes_def
        Object_values_def PoChartType_def)
  have "trunc 300 = 300" by code_simp
  then have "priv_height ?c1 = Some (Finite 300)"
    by (simp add: priv_height_set_height_finite)
  then have height: "get_height PoChartType ?c2 = Finite 300"
    by (simp add: get_height_def set_type_def rebuildComponent_fields)
  from rebuild_only_by_height_and_type
      [of "JRef 4" two_series_store ?c2 PoChartType, THEN conjunct1]
  obtain h' c' where "set_series (JRef 4) (two_series_store, ?c2) = Inr (h', c')"
    "get_height PoChartType c' = get_height PoChartType ?c2"
    "get_type c' = get_type ?c2" "rebuildComponent_calls c' = rebuildComponent_calls ?c2"
    by (elim exE conjE)
  with calls ty height show ?thesis by simp
qed

end
